theory Spec2Isabelle
  imports Main "HOL-Library.Word"
begin

unbundle bit_operations_syntax

section \<open>Block primitives of \<^verbatim>\<open>src/primitives/block.h\<close>\<close>

text \<open>
  The header declares three classes: \<^verbatim>\<open>CBlockHeader\<close>, its subclass \<^verbatim>\<open>CBlock\<close> and
  \<^verbatim>\<open>CBlockLocator\<close>. The transaction type, the outpoint type, the serialization
  library and the constant \<^verbatim>\<open>SER_GETHASH\<close> are declared in other headers
  (\<^verbatim>\<open>primitives/transaction.h\<close>, \<^verbatim>\<open>serialize.h\<close>, \<^verbatim>\<open>uint256.h\<close>); what block.h uses of
  them is taken as a parameter, collected in the records \<open>ext\<close> and \<open>serlib\<close>.
\<close>

subsection \<open>Data\<close>

type_synonym byte = "8 word"
type_synonym uint256 = "256 word"
type_synonym uint32_t = "32 word"
type_synonym int32_t = "32 word"

text \<open>
  A \<^verbatim>\<open>COutPoint\<close> is a transaction id and an output index. block.h only
  default-constructs, copies and serializes it.
\<close>

datatype COutPoint = COutPoint (outpoint_hash: uint256) (outpoint_n: uint32_t)

text \<open>
  Of a transaction input block.h reads the member \<^verbatim>\<open>prevout\<close>; of a transaction, the
  members \<^verbatim>\<open>vin\<close> and \<^verbatim>\<open>nTime\<close> and the method \<^verbatim>\<open>IsCoinStake()\<close>. The remaining
  members of a transaction live in the extension slot of the record, so a
  transaction is a value of type \<open>'t CTransaction_scheme\<close>. Entries of \<^verbatim>\<open>vtx\<close> are
  shared pointers; they are taken to be non-null.
\<close>

record CTxIn =
  prevout :: COutPoint

record CTransaction =
  nTime :: uint32_t
  vin :: "CTxIn list"

record CBlockHeader =
  nVersion :: int32_t
  hashPrevBlock :: uint256
  hashMerkleRoot :: uint256
  nTime :: uint32_t
  nBits :: uint32_t
  nNonce :: uint32_t
  hashStateRoot :: uint256
  vchBlockSig :: "byte list"
  fStake :: bool
  prevoutStake :: COutPoint
  nStakeTime :: uint32_t

record 't CBlock = CBlockHeader +
  vtx :: "'t CTransaction_scheme list"
  fChecked :: bool

record CBlockLocator =
  vHave :: "uint256 list"

text \<open>
  What block.h takes from \<^verbatim>\<open>primitives/transaction.h\<close>: the predicate
  \<^verbatim>\<open>CTransaction::IsCoinStake\<close> and the default-constructed (null) \<^verbatim>\<open>COutPoint\<close>.
\<close>

record 't ext =
  IsCoinStake :: "'t CTransaction_scheme \<Rightarrow> bool"
  COutPoint_null :: COutPoint

subsection \<open>Faults\<close>

text \<open>
  \<^verbatim>\<open>std::vector::operator[]\<close> outside the vector is undefined behaviour. The model
  makes it a value: every indexing goes through \<open>vec_at\<close>.
\<close>

datatype fault = OutOfRange | BadReference | StreamFailure

definition vec_at :: "'a list \<Rightarrow> nat \<Rightarrow> fault + 'a" where
  "vec_at xs i = (if i < length xs then Inr (xs ! i) else Inl OutOfRange)"

definition bind_res :: "fault + 'a \<Rightarrow> ('a \<Rightarrow> fault + 'b) \<Rightarrow> fault + 'b" where
  "bind_res m f = (case m of Inl e \<Rightarrow> Inl e | Inr x \<Rightarrow> f x)"

subsection \<open>\<^verbatim>\<open>CBlockHeader\<close>: the stored stake fields\<close>

definition CBlockHeader_SetNull :: "('t, 'e) ext_scheme \<Rightarrow> 'z CBlockHeader_scheme \<Rightarrow> 'z CBlockHeader_scheme" where
  "CBlockHeader_SetNull E h =
     h\<lparr>nVersion := 0, hashPrevBlock := 0, hashMerkleRoot := 0, nTime := 0, nBits := 0,
       nNonce := 0, hashStateRoot := 0, vchBlockSig := [], fStake := False,
       prevoutStake := COutPoint_null E, nStakeTime := 0\<rparr>"

definition CBlockHeader_IsNull :: "'z CBlockHeader_scheme \<Rightarrow> bool" where
  "CBlockHeader_IsNull h = (nBits h = 0)"

definition CBlockHeader_IsProofOfStake :: "'z CBlockHeader_scheme \<Rightarrow> fault + bool" where
  "CBlockHeader_IsProofOfStake h = Inr (fStake h)"

definition CBlockHeader_PrevoutStake :: "'z CBlockHeader_scheme \<Rightarrow> fault + COutPoint" where
  "CBlockHeader_PrevoutStake h = Inr (prevoutStake h)"

definition CBlockHeader_StakeTime :: "'z CBlockHeader_scheme \<Rightarrow> fault + uint32_t" where
  "CBlockHeader_StakeTime h = Inr (nStakeTime h)"

subsection \<open>\<^verbatim>\<open>CBlock\<close>: the stake fields derived from the transactions\<close>

text \<open>
  \<^verbatim>\<open>vtx.size() > 1 && vtx[1]->IsCoinStake()\<close> evaluates its right operand only when
  the left one holds.
\<close>

definition CBlock_IsProofOfStake :: "('t, 'e) ext_scheme \<Rightarrow> ('t, 'z) CBlock_scheme \<Rightarrow> fault + bool" where
  "CBlock_IsProofOfStake E b =
     (if length (vtx b) = 0 then Inr (fStake b)
      else if length (vtx b) > 1
        then bind_res (vec_at (vtx b) 1) (\<lambda>t. Inr (IsCoinStake E t))
        else Inr False)"

definition CBlock_PrevoutStake :: "('t, 'e) ext_scheme \<Rightarrow> ('t, 'z) CBlock_scheme \<Rightarrow> fault + COutPoint" where
  "CBlock_PrevoutStake E b =
     (if length (vtx b) = 0 then Inr (prevoutStake b)
      else bind_res (CBlock_IsProofOfStake E b) (\<lambda>pos.
        if pos
        then bind_res (vec_at (vtx b) 1) (\<lambda>t.
             bind_res (vec_at (vin t) 0) (\<lambda>i. Inr (prevout i)))
        else Inr (COutPoint_null E)))"

definition CBlock_StakeTime :: "('t, 'e) ext_scheme \<Rightarrow> ('t, 'z) CBlock_scheme \<Rightarrow> fault + uint32_t" where
  "CBlock_StakeTime E b =
     (if length (vtx b) = 0 then Inr (nStakeTime b)
      else bind_res (CBlock_IsProofOfStake E b) (\<lambda>pos.
        if pos
        then bind_res (vec_at (vtx b) 1) (\<lambda>t. Inr (CTransaction.nTime t))
        else Inr 0))"

definition CBlock_GetProofOfStake ::
  "('t, 'e) ext_scheme \<Rightarrow> ('t, 'z) CBlock_scheme \<Rightarrow> fault + (COutPoint \<times> uint32_t)" where
  "CBlock_GetProofOfStake E b =
     bind_res (CBlock_IsProofOfStake E b) (\<lambda>pos.
       if pos
       then bind_res (vec_at (vtx b) 1) (\<lambda>t.
            bind_res (vec_at (vin t) 0) (\<lambda>i.
            bind_res (vec_at (vtx b) 1) (\<lambda>t'.
              Inr (prevout i, CTransaction.nTime t'))))
       else Inr (COutPoint_null E, 0))"

subsection \<open>Dynamic dispatch\<close>

text \<open>
  \<^verbatim>\<open>IsProofOfStake\<close>, \<^verbatim>\<open>IsProofOfWork\<close>, \<^verbatim>\<open>PrevoutStake\<close> and \<^verbatim>\<open>StakeTime\<close> are virtual.
  Code of \<^verbatim>\<open>CBlockHeader\<close> that calls them on \<^verbatim>\<open>this\<close> or on a \<^verbatim>\<open>const CBlockHeader&\<close>
  reaches the implementation of the object's dynamic type. Such code is written
  once, over any extension of the header record, and takes the dynamic type's
  method table; \<^verbatim>\<open>CBlock\<close> overrides three of the four entries.
\<close>

record 'x vtable =
  vIsProofOfStake :: "'x \<Rightarrow> fault + bool"
  vPrevoutStake :: "'x \<Rightarrow> fault + COutPoint"
  vStakeTime :: "'x \<Rightarrow> fault + uint32_t"

definition CBlockHeader_vtable :: "'z CBlockHeader_scheme vtable" where
  "CBlockHeader_vtable =
     \<lparr>vIsProofOfStake = CBlockHeader_IsProofOfStake,
      vPrevoutStake = CBlockHeader_PrevoutStake,
      vStakeTime = CBlockHeader_StakeTime\<rparr>"

definition CBlock_vtable :: "('t, 'e) ext_scheme \<Rightarrow> ('t, 'z) CBlock_scheme vtable" where
  "CBlock_vtable E =
     \<lparr>vIsProofOfStake = CBlock_IsProofOfStake E,
      vPrevoutStake = CBlock_PrevoutStake E,
      vStakeTime = CBlock_StakeTime E\<rparr>"

definition CBlockHeader_IsProofOfWork :: "'x vtable \<Rightarrow> 'x \<Rightarrow> fault + bool" where
  "CBlockHeader_IsProofOfWork vt this = bind_res (vIsProofOfStake vt this) (\<lambda>pos. Inr (\<not> pos))"

text \<open>An object behind a \<^verbatim>\<open>CBlockHeader&\<close>: a plain header or a block.\<close>

datatype 't object = Header CBlockHeader | Block "'t CBlock"

fun IsProofOfStake :: "('t, 'e) ext_scheme \<Rightarrow> 't object \<Rightarrow> fault + bool" where
  "IsProofOfStake E (Header h) = vIsProofOfStake CBlockHeader_vtable h"
| "IsProofOfStake E (Block b) = vIsProofOfStake (CBlock_vtable E) b"

fun PrevoutStake :: "('t, 'e) ext_scheme \<Rightarrow> 't object \<Rightarrow> fault + COutPoint" where
  "PrevoutStake E (Header h) = vPrevoutStake CBlockHeader_vtable h"
| "PrevoutStake E (Block b) = vPrevoutStake (CBlock_vtable E) b"

fun StakeTime :: "('t, 'e) ext_scheme \<Rightarrow> 't object \<Rightarrow> fault + uint32_t" where
  "StakeTime E (Header h) = vStakeTime CBlockHeader_vtable h"
| "StakeTime E (Block b) = vStakeTime (CBlock_vtable E) b"

text \<open>The stored header fields of an object, whatever its dynamic type.\<close>

fun stored :: "'t object \<Rightarrow> CBlockHeader" where
  "stored (Header h) = CBlockHeader.truncate h"
| "stored (Block b) = CBlockHeader.truncate b"

subsection \<open>Construction, assignment and \<^verbatim>\<open>GetBlockHeader\<close>\<close>

text \<open>\<^verbatim>\<open>CBlockHeader() { SetNull(); }\<close> and \<^verbatim>\<open>CBlock() { SetNull(); }\<close>.\<close>

definition CBlockHeader_new :: "('t, 'e) ext_scheme \<Rightarrow> CBlockHeader" where
  "CBlockHeader_new E =
     \<lparr>nVersion = 0, hashPrevBlock = 0, hashMerkleRoot = 0, nTime = 0, nBits = 0,
      nNonce = 0, hashStateRoot = 0, vchBlockSig = [], fStake = False,
      prevoutStake = COutPoint_null E, nStakeTime = 0\<rparr>"

definition CBlock_SetNull :: "('t, 'e) ext_scheme \<Rightarrow> ('t, 'z) CBlock_scheme \<Rightarrow> ('t, 'z) CBlock_scheme" where
  "CBlock_SetNull E b = (CBlockHeader_SetNull E b)\<lparr>vtx := [], fChecked := False\<rparr>"

definition CBlock_new :: "('t, 'e) ext_scheme \<Rightarrow> 't CBlock" where
  "CBlock_new E =
     \<lparr>nVersion = 0, hashPrevBlock = 0, hashMerkleRoot = 0, nTime = 0, nBits = 0,
      nNonce = 0, hashStateRoot = 0, vchBlockSig = [], fStake = False,
      prevoutStake = COutPoint_null E, nStakeTime = 0, vtx = [], fChecked = False\<rparr>"

text \<open>
  The body of \<^verbatim>\<open>CBlockHeader::operator=\<close> under \<^verbatim>\<open>this != &other\<close>: eight fields are
  read from \<^verbatim>\<open>other\<close>, three are the results of \<^verbatim>\<open>other\<close>'s virtual methods, taken
  from its method table \<open>vt\<close>.
\<close>

definition assign_fields ::
  "'y CBlockHeader_scheme vtable \<Rightarrow> 'z CBlockHeader_scheme \<Rightarrow> 'y CBlockHeader_scheme \<Rightarrow>
   fault + 'z CBlockHeader_scheme" where
  "assign_fields vt this other =
     (let this = this\<lparr>nVersion := nVersion other\<rparr>;
          this = this\<lparr>hashPrevBlock := hashPrevBlock other\<rparr>;
          this = this\<lparr>hashMerkleRoot := hashMerkleRoot other\<rparr>;
          this = this\<lparr>nTime := nTime other\<rparr>;
          this = this\<lparr>nBits := nBits other\<rparr>;
          this = this\<lparr>nNonce := nNonce other\<rparr>;
          this = this\<lparr>hashStateRoot := hashStateRoot other\<rparr>;
          this = this\<lparr>vchBlockSig := vchBlockSig other\<rparr>
      in bind_res (vIsProofOfStake vt other) (\<lambda>f. let this = this\<lparr>fStake := f\<rparr> in
         bind_res (vPrevoutStake vt other) (\<lambda>p. let this = this\<lparr>prevoutStake := p\<rparr> in
         bind_res (vStakeTime vt other) (\<lambda>t. Inr (this\<lparr>nStakeTime := t\<rparr>)))))"

text \<open>
  \<^verbatim>\<open>CBlockHeader::operator=\<close> compares addresses, so it is modelled on a store of
  objects: \<open>this\<close> and \<open>other\<close> are addresses, and the same address on both sides
  leaves the store as it is. The destination keeps its dynamic type and what lies
  outside its header part.
\<close>

type_synonym 't store = "nat \<Rightarrow> 't object option"

fun assign_object :: "('t, 'e) ext_scheme \<Rightarrow> 't object \<Rightarrow> 't object \<Rightarrow> fault + 't object" where
  "assign_object E (Header d) (Header s) =
     bind_res (assign_fields CBlockHeader_vtable d s) (\<lambda>d'. Inr (Header d'))"
| "assign_object E (Header d) (Block s) =
     bind_res (assign_fields (CBlock_vtable E) d s) (\<lambda>d'. Inr (Header d'))"
| "assign_object E (Block d) (Header s) =
     bind_res (assign_fields CBlockHeader_vtable d s) (\<lambda>d'. Inr (Block d'))"
| "assign_object E (Block d) (Block s) =
     bind_res (assign_fields (CBlock_vtable E) d s) (\<lambda>d'. Inr (Block d'))"

definition CBlockHeader_assign ::
  "('t, 'e) ext_scheme \<Rightarrow> 't store \<Rightarrow> nat \<Rightarrow> nat \<Rightarrow> fault + 't store" where
  "CBlockHeader_assign E H this other =
     (case (H this, H other) of
        (Some d, Some s) \<Rightarrow>
          if this \<noteq> other
          then bind_res (assign_object E d s) (\<lambda>d'. Inr (H(this \<mapsto> d')))
          else Inr H
      | _ \<Rightarrow> Inl BadReference)"

text \<open>
  \<^verbatim>\<open>CBlock(const CBlockHeader &header)\<close>: \<^verbatim>\<open>SetNull()\<close>, then the header part is assigned
  from \<^verbatim>\<open>header\<close>. The new block is never \<^verbatim>\<open>header\<close> itself.
\<close>

fun CBlock_from_header :: "('t, 'e) ext_scheme \<Rightarrow> 't object \<Rightarrow> fault + 't CBlock" where
  "CBlock_from_header E (Header s) = assign_fields CBlockHeader_vtable (CBlock_new E) s"
| "CBlock_from_header E (Block s) = assign_fields (CBlock_vtable E) (CBlock_new E) s"

definition CBlock_GetBlockHeader :: "('t, 'e) ext_scheme \<Rightarrow> ('t, 'z) CBlock_scheme \<Rightarrow> fault + CBlockHeader" where
  "CBlock_GetBlockHeader E this =
     (let block = CBlockHeader_new E;
          block = block\<lparr>nVersion := nVersion this\<rparr>;
          block = block\<lparr>hashPrevBlock := hashPrevBlock this\<rparr>;
          block = block\<lparr>hashMerkleRoot := hashMerkleRoot this\<rparr>;
          block = block\<lparr>nTime := nTime this\<rparr>;
          block = block\<lparr>nBits := nBits this\<rparr>;
          block = block\<lparr>nNonce := nNonce this\<rparr>;
          block = block\<lparr>hashStateRoot := hashStateRoot this\<rparr>;
          block = block\<lparr>vchBlockSig := vchBlockSig this\<rparr>
      in bind_res (CBlock_IsProofOfStake E this) (\<lambda>f. let block = block\<lparr>fStake := f\<rparr> in
         bind_res (CBlock_PrevoutStake E this) (\<lambda>p. let block = block\<lparr>prevoutStake := p\<rparr> in
         bind_res (CBlock_StakeTime E this) (\<lambda>t. Inr (block\<lparr>nStakeTime := t\<rparr>)))))"

subsection \<open>Serialization\<close>

text \<open>
  \<^verbatim>\<open>READWRITE\<close>, the streams and the encodings of the field types come from
  \<^verbatim>\<open>serialize.h\<close>. A stream is a byte buffer with the two attributes block.h asks for
  (\<^verbatim>\<open>GetType()\<close>, \<^verbatim>\<open>GetVersion()\<close>); writing appends to the buffer, reading consumes
  it from the front. The encoding of each field type is a parameter: a pair of a
  writer and a reader, where the reader returns the value and the remaining bytes,
  or nothing when the library throws. \<^verbatim>\<open>int\<close> and \<^verbatim>\<open>int32_t\<close> are the same type and
  share an entry.
\<close>

type_synonym 'a codec = "('a \<Rightarrow> byte list) \<times> (byte list \<Rightarrow> ('a \<times> byte list) option)"

record 't serlib = "'t ext" +
  SER_GETHASH :: "32 word"
  ser_int32 :: "int32_t codec"
  ser_uint32 :: "uint32_t codec"
  ser_uint256 :: "uint256 codec"
  ser_bytes :: "byte list codec"
  ser_bool :: "bool codec"
  ser_outpoint :: "COutPoint codec"
  ser_vtx :: "'t CTransaction_scheme list codec"
  ser_hashes :: "uint256 list codec"

record stream =
  s_type :: "32 word"
  s_version :: "32 word"
  s_buf :: "byte list"

definition put :: "'a codec \<Rightarrow> 'a \<Rightarrow> byte list" where
  "put c v = fst c v"

definition get :: "'a codec \<Rightarrow> byte list \<Rightarrow> ('a \<times> byte list) option" where
  "get c bs = snd c bs"

text \<open>\<^verbatim>\<open>READWRITE(v)\<close> under \<^verbatim>\<open>CSerActionSerialize\<close> and under \<^verbatim>\<open>CSerActionUnserialize\<close>.\<close>

definition READWRITE_ser :: "'a codec \<Rightarrow> 'a \<Rightarrow> stream \<Rightarrow> stream" where
  "READWRITE_ser c v s = s\<lparr>s_buf := s_buf s @ put c v\<rparr>"

definition READWRITE_unser :: "'a codec \<Rightarrow> stream \<Rightarrow> fault + ('a \<times> stream)" where
  "READWRITE_unser c s =
     (case get c (s_buf s) of
        None \<Rightarrow> Inl StreamFailure
      | Some (v, rest) \<Rightarrow> Inr (v, s\<lparr>s_buf := rest\<rparr>))"

text \<open>
  \<^verbatim>\<open>CBlockHeader::SerializationOp\<close>, once per action. Both run on \<^verbatim>\<open>this\<close> with the
  method table of its dynamic type and return the object as the call leaves it.
  An exception or a fault ends the call; the half-updated object is not returned.
\<close>

definition CBlockHeader_Serialize ::
  "('t, 'e) serlib_scheme \<Rightarrow> 'z CBlockHeader_scheme vtable \<Rightarrow> 'z CBlockHeader_scheme \<Rightarrow> stream \<Rightarrow>
   fault + ('z CBlockHeader_scheme \<times> stream)" where
  "CBlockHeader_Serialize L vt this s =
     (let s = READWRITE_ser (ser_int32 L) (nVersion this) s;
          s = READWRITE_ser (ser_uint256 L) (hashPrevBlock this) s;
          s = READWRITE_ser (ser_uint256 L) (hashMerkleRoot this) s;
          s = READWRITE_ser (ser_uint32 L) (nTime this) s;
          s = READWRITE_ser (ser_uint32 L) (nBits this) s;
          s = READWRITE_ser (ser_uint32 L) (nNonce this) s;
          s = READWRITE_ser (ser_uint256 L) (hashStateRoot this) s;
          s = READWRITE_ser (ser_bytes L) (vchBlockSig this) s
      in bind_res (vIsProofOfStake vt this) (\<lambda>f. let this = this\<lparr>fStake := f\<rparr> in
         bind_res (vPrevoutStake vt this) (\<lambda>p. let this = this\<lparr>prevoutStake := p\<rparr> in
         bind_res (vStakeTime vt this) (\<lambda>t. let this = this\<lparr>nStakeTime := t\<rparr>;
           s = READWRITE_ser (ser_bool L) (fStake this) s;
           s = READWRITE_ser (ser_outpoint L) (prevoutStake this) s;
           s = READWRITE_ser (ser_uint32 L) (nStakeTime this) s
         in Inr (this, s)))))"

definition CBlockHeader_Unserialize ::
  "('t, 'e) serlib_scheme \<Rightarrow> 'z CBlockHeader_scheme vtable \<Rightarrow> 'z CBlockHeader_scheme \<Rightarrow> stream \<Rightarrow>
   fault + ('z CBlockHeader_scheme \<times> stream)" where
  "CBlockHeader_Unserialize L vt this s =
     bind_res (READWRITE_unser (ser_int32 L) s) (\<lambda>(v, s). let this = this\<lparr>nVersion := v\<rparr> in
     bind_res (READWRITE_unser (ser_uint256 L) s) (\<lambda>(v, s). let this = this\<lparr>hashPrevBlock := v\<rparr> in
     bind_res (READWRITE_unser (ser_uint256 L) s) (\<lambda>(v, s). let this = this\<lparr>hashMerkleRoot := v\<rparr> in
     bind_res (READWRITE_unser (ser_uint32 L) s) (\<lambda>(v, s). let this = this\<lparr>nTime := v\<rparr> in
     bind_res (READWRITE_unser (ser_uint32 L) s) (\<lambda>(v, s). let this = this\<lparr>nBits := v\<rparr> in
     bind_res (READWRITE_unser (ser_uint32 L) s) (\<lambda>(v, s). let this = this\<lparr>nNonce := v\<rparr> in
     bind_res (READWRITE_unser (ser_uint256 L) s) (\<lambda>(v, s). let this = this\<lparr>hashStateRoot := v\<rparr> in
     bind_res (READWRITE_unser (ser_bytes L) s) (\<lambda>(v, s). let this = this\<lparr>vchBlockSig := v\<rparr> in
     bind_res (vIsProofOfStake vt this) (\<lambda>f. let this = this\<lparr>fStake := f\<rparr> in
     bind_res (vPrevoutStake vt this) (\<lambda>p. let this = this\<lparr>prevoutStake := p\<rparr> in
     bind_res (vStakeTime vt this) (\<lambda>t. let this = this\<lparr>nStakeTime := t\<rparr> in
     bind_res (READWRITE_unser (ser_bool L) s) (\<lambda>(v, s). let this = this\<lparr>fStake := v\<rparr> in
     bind_res (READWRITE_unser (ser_outpoint L) s) (\<lambda>(v, s). let this = this\<lparr>prevoutStake := v\<rparr> in
     bind_res (READWRITE_unser (ser_uint32 L) s) (\<lambda>(v, s). let this = this\<lparr>nStakeTime := v\<rparr> in
     Inr (this, s)))))))))))))))"

text \<open>
  \<^verbatim>\<open>CBlock::SerializationOp\<close>: the header part through \<^verbatim>\<open>CBlockHeader\<close>'s method, on the
  same object (so with \<^verbatim>\<open>CBlock\<close>'s method table), then \<^verbatim>\<open>vtx\<close>. \<^verbatim>\<open>fChecked\<close> is neither
  written nor read.
\<close>

definition CBlock_Serialize ::
  "('t, 'e) serlib_scheme \<Rightarrow> ('t, 'z) CBlock_scheme \<Rightarrow> stream \<Rightarrow> fault + (('t, 'z) CBlock_scheme \<times> stream)" where
  "CBlock_Serialize L this s =
     bind_res (CBlockHeader_Serialize L (CBlock_vtable L) this s) (\<lambda>(this, s).
       let s = READWRITE_ser (ser_vtx L) (vtx this) s in Inr (this, s))"

definition CBlock_Unserialize ::
  "('t, 'e) serlib_scheme \<Rightarrow> ('t, 'z) CBlock_scheme \<Rightarrow> stream \<Rightarrow> fault + (('t, 'z) CBlock_scheme \<times> stream)" where
  "CBlock_Unserialize L this s =
     bind_res (CBlockHeader_Unserialize L (CBlock_vtable L) this s) (\<lambda>(this, s).
     bind_res (READWRITE_unser (ser_vtx L) s) (\<lambda>(v, s). let this = this\<lparr>vtx := v\<rparr> in
     Inr (this, s)))"

text \<open>\<^verbatim>\<open>CBlockHeader\<close>'s serialization applied to an object of either dynamic type.\<close>

fun Serialize_header_of ::
  "('t, 'e) serlib_scheme \<Rightarrow> 't object \<Rightarrow> stream \<Rightarrow> fault + ('t object \<times> stream)" where
  "Serialize_header_of L (Header h) s =
     bind_res (CBlockHeader_Serialize L CBlockHeader_vtable h s) (\<lambda>(h', s'). Inr (Header h', s'))"
| "Serialize_header_of L (Block b) s =
     bind_res (CBlockHeader_Serialize L (CBlock_vtable L) b s) (\<lambda>(b', s'). Inr (Block b', s'))"

text \<open>
  \<^verbatim>\<open>CBlockLocator::SerializationOp\<close>. The local \<^verbatim>\<open>nVersion\<close> starts as the stream's
  version; when read, it is dropped at the end of the call.
\<close>

definition CBlockLocator_Serialize ::
  "('t, 'e) serlib_scheme \<Rightarrow> CBlockLocator \<Rightarrow> stream \<Rightarrow> CBlockLocator \<times> stream" where
  "CBlockLocator_Serialize L this s =
     (let nVersion' = s_version s;
          s = (if \<not> (s_type s AND SER_GETHASH L \<noteq> 0)
               then READWRITE_ser (ser_int32 L) nVersion' s else s);
          s = READWRITE_ser (ser_hashes L) (vHave this) s
      in (this, s))"

definition CBlockLocator_Unserialize ::
  "('t, 'e) serlib_scheme \<Rightarrow> CBlockLocator \<Rightarrow> stream \<Rightarrow> fault + (CBlockLocator \<times> stream)" where
  "CBlockLocator_Unserialize L this s =
     (let nVersion' = s_version s in
      bind_res (if \<not> (s_type s AND SER_GETHASH L \<noteq> 0)
                then bind_res (READWRITE_unser (ser_int32 L) s) (\<lambda>(nVersion', s). Inr s)
                else Inr s) (\<lambda>s.
      bind_res (READWRITE_unser (ser_hashes L) s) (\<lambda>(v, s). let this = this\<lparr>vHave := v\<rparr> in
      Inr (this, s))))"

subsection \<open>Reading back\<close>

text \<open>
  What is asked of the serialization library for a value: the reader, given the
  bytes the writer produced for it followed by any further bytes, returns the
  value and those further bytes. \<open>header_codable\<close> asks this for the eleven field
  values of a header.
\<close>

definition codec_on :: "'a codec \<Rightarrow> 'a \<Rightarrow> bool" where
  "codec_on c v \<longleftrightarrow> (\<forall>rest. get c (put c v @ rest) = Some (v, rest))"

definition header_codable :: "('t, 'e) serlib_scheme \<Rightarrow> 'z CBlockHeader_scheme \<Rightarrow> bool" where
  "header_codable L h \<longleftrightarrow>
     codec_on (ser_int32 L) (nVersion h) \<and> codec_on (ser_uint256 L) (hashPrevBlock h) \<and>
     codec_on (ser_uint256 L) (hashMerkleRoot h) \<and> codec_on (ser_uint32 L) (nTime h) \<and>
     codec_on (ser_uint32 L) (nBits h) \<and> codec_on (ser_uint32 L) (nNonce h) \<and>
     codec_on (ser_uint256 L) (hashStateRoot h) \<and> codec_on (ser_bytes L) (vchBlockSig h) \<and>
     codec_on (ser_bool L) (fStake h) \<and> codec_on (ser_outpoint L) (prevoutStake h) \<and>
     codec_on (ser_uint32 L) (nStakeTime h)"

subsection \<open>An instance of the parameters\<close>

text \<open>
  One byte-level instance of the serialization library, used where the theorems
  below are applied to concrete blocks: integers of fixed width in little-endian
  order, a bool as one byte, an outpoint as the 32 bytes of the id and the 4 bytes
  of the index, a sequence as its length in the compact-size format (1, 3, 5 or 9
  bytes) followed by its elements.
\<close>

fun le_bytes :: "nat \<Rightarrow> nat \<Rightarrow> byte list" where
  "le_bytes 0 v = []"
| "le_bytes (Suc k) v = of_nat (v mod 256) # le_bytes k (v div 256)"

fun le_nat :: "byte list \<Rightarrow> nat" where
  "le_nat [] = 0"
| "le_nat (b # bs) = unat b + 256 * le_nat bs"

definition get_le :: "nat \<Rightarrow> byte list \<Rightarrow> (nat \<times> byte list) option" where
  "get_le k bs = (if length bs < k then None else Some (le_nat (take k bs), drop k bs))"

definition word_codec :: "nat \<Rightarrow> 'a::len word codec" where
  "word_codec k =
     (\<lambda>w. le_bytes k (unat w),
      \<lambda>bs. case get_le k bs of None \<Rightarrow> None | Some (v, rest) \<Rightarrow> Some (of_nat v, rest))"

definition bool_codec :: "bool codec" where
  "bool_codec =
     (\<lambda>b. [if b then 1 else 0],
      \<lambda>bs. case bs of [] \<Rightarrow> None | b # rest \<Rightarrow> Some (b \<noteq> 0, rest))"

definition outpoint_codec :: "COutPoint codec" where
  "outpoint_codec =
     (\<lambda>p. put (word_codec 32) (outpoint_hash p) @ put (word_codec 4) (outpoint_n p),
      \<lambda>bs. case get (word_codec 32) bs of
              None \<Rightarrow> None
            | Some (h, rest) \<Rightarrow>
                (case get (word_codec 4) rest of
                   None \<Rightarrow> None
                 | Some (k, rest') \<Rightarrow> Some (COutPoint h k, rest')))"

definition put_size :: "nat \<Rightarrow> byte list" where
  "put_size k =
     (if k < 253 then le_bytes 1 k
      else if k \<le> 0xFFFF then 253 # le_bytes 2 k
      else if k \<le> 0xFFFFFFFF then 254 # le_bytes 4 k
      else 255 # le_bytes 8 k)"

definition get_size :: "byte list \<Rightarrow> (nat \<times> byte list) option" where
  "get_size bs =
     (case bs of
        [] \<Rightarrow> None
      | b # rest \<Rightarrow>
          if b < 253 then Some (unat b, rest)
          else if b = 253 then get_le 2 rest
          else if b = 254 then get_le 4 rest
          else get_le 8 rest)"

fun get_many :: "'a codec \<Rightarrow> nat \<Rightarrow> byte list \<Rightarrow> ('a list \<times> byte list) option" where
  "get_many c 0 bs = Some ([], bs)"
| "get_many c (Suc k) bs =
     (case get c bs of
        None \<Rightarrow> None
      | Some (x, rest) \<Rightarrow>
          (case get_many c k rest of
             None \<Rightarrow> None
           | Some (xs, rest') \<Rightarrow> Some (x # xs, rest')))"

definition vector_codec :: "'a codec \<Rightarrow> 'a list codec" where
  "vector_codec c =
     (\<lambda>xs. put_size (length xs) @ concat (map (put c) xs),
      \<lambda>bs. case get_size bs of None \<Rightarrow> None | Some (k, rest) \<Rightarrow> get_many c k rest)"

definition txin_codec :: "CTxIn codec" where
  "txin_codec =
     (\<lambda>i. put outpoint_codec (prevout i),
      \<lambda>bs. case get outpoint_codec bs of
              None \<Rightarrow> None
            | Some (p, rest) \<Rightarrow> Some (\<lparr>prevout = p\<rparr>, rest))"

definition tx_codec :: "CTransaction codec" where
  "tx_codec =
     (\<lambda>t. put (word_codec 4) (CTransaction.nTime t) @ put (vector_codec txin_codec) (vin t),
      \<lambda>bs. case get (word_codec 4) bs of
              None \<Rightarrow> None
            | Some (tm, rest) \<Rightarrow>
                (case get (vector_codec txin_codec) rest of
                   None \<Rightarrow> None
                 | Some (is, rest') \<Rightarrow> Some (\<lparr>CTransaction.nTime = tm, vin = is\<rparr>, rest')))"

text \<open>
  In the instance a transaction is a coinstake when it has a first input and that
  input spends a real output; a coinbase input carries the null outpoint.
\<close>

definition example_lib :: "unit serlib" where
  "example_lib =
     \<lparr>IsCoinStake = (\<lambda>t. case vin t of [] \<Rightarrow> False | i # _ \<Rightarrow> prevout i \<noteq> COutPoint 0 (- 1)),
      COutPoint_null = COutPoint 0 (- 1),
      SER_GETHASH = 4,
      ser_int32 = word_codec 4,
      ser_uint32 = word_codec 4,
      ser_uint256 = word_codec 32,
      ser_bytes = vector_codec (word_codec 1),
      ser_bool = bool_codec,
      ser_outpoint = outpoint_codec,
      ser_vtx = vector_codec tx_codec,
      ser_hashes = vector_codec (word_codec 32)\<rparr>"

definition example_coinbase :: CTransaction where
  "example_coinbase = \<lparr>CTransaction.nTime = 1600000000, vin = [\<lparr>prevout = COutPoint 0 (- 1)\<rparr>]\<rparr>"

definition example_coinstake :: CTransaction where
  "example_coinstake = \<lparr>CTransaction.nTime = 1600000016, vin = [\<lparr>prevout = COutPoint 0xAA 0\<rparr>]\<rparr>"

definition example_payment :: CTransaction where
  "example_payment = \<lparr>CTransaction.nTime = 1600000003, vin = []\<rparr>"

text \<open>
  The header of the example scenario (\<^verbatim>\<open>bits = 0x1d00ffff\<close>, \<^verbatim>\<open>nonce = 0\<close>, no signature,
  stored flag false), a header whose stored fields say proof of stake, and blocks
  over them with zero, one and two transactions.
\<close>

definition example_header :: CBlockHeader where
  "example_header =
     \<lparr>nVersion = 1, hashPrevBlock = 7, hashMerkleRoot = 9, nTime = 1600000016,
      nBits = 0x1d00ffff, nNonce = 0, hashStateRoot = 11, vchBlockSig = [],
      fStake = False, prevoutStake = COutPoint 0 (- 1), nStakeTime = 0\<rparr>"

definition example_stake_header :: CBlockHeader where
  "example_stake_header =
     example_header\<lparr>vchBlockSig := [48, 68], fStake := True,
                    prevoutStake := COutPoint 0xBB 3, nStakeTime := 1500000000\<rparr>"

definition block_of :: "CBlockHeader \<Rightarrow> CTransaction list \<Rightarrow> unit CBlock" where
  "block_of h txs = CBlockHeader.extend h (CBlock.fields txs False)"

definition example_empty_stake_block :: "unit CBlock" where
  "example_empty_stake_block = block_of example_stake_header []"

definition example_single_block :: "unit CBlock" where
  "example_single_block = block_of example_stake_header [example_coinbase]"

definition example_pos_block :: "unit CBlock" where
  "example_pos_block = block_of example_header [example_coinbase, example_coinstake]"

definition example_pow_block :: "unit CBlock" where
  "example_pow_block = block_of example_stake_header [example_coinbase, example_payment]"

text \<open>
  A store holding a header and a block, a network stream and a hashing stream
  (\<^verbatim>\<open>SER_GETHASH\<close> set in the type), and a locator.
\<close>

definition example_store :: "unit store" where
  "example_store = [0 \<mapsto> Header example_stake_header, 1 \<mapsto> Block example_pos_block]"

definition example_stream :: stream where
  "example_stream = \<lparr>s_type = 1, s_version = 70016, s_buf = []\<rparr>"

definition example_hash_stream :: stream where
  "example_hash_stream = \<lparr>s_type = 4, s_version = 70016, s_buf = []\<rparr>"

definition example_locator :: CBlockLocator where
  "example_locator = \<lparr>vHave = [0x1234, 0x99, 0]\<rparr>"

section \<open>Stake classification of a block\<close>

lemma bind_res_Inr: "bind_res (Inr x) f = f x"
  by (simp add: bind_res_def)

lemma bind_res_Inl: "bind_res (Inl e) f = Inl e"
  by (simp add: bind_res_def)

lemma CBlock_IsProofOfStake_total:
  "CBlock_IsProofOfStake E b =
     Inr (if vtx b = [] then fStake b else 1 < length (vtx b) \<and> IsCoinStake E (vtx b ! 1))"
  by (simp add: CBlock_IsProofOfStake_def vec_at_def bind_res_def)

lemma CBlock_StakeTime_total:
  "CBlock_StakeTime E b =
     Inr (if vtx b = [] then nStakeTime b
          else if 1 < length (vtx b) \<and> IsCoinStake E (vtx b ! 1)
               then CTransaction.nTime (vtx b ! 1) else 0)"
  by (simp add: CBlock_StakeTime_def CBlock_IsProofOfStake_total vec_at_def bind_res_def)

lemma CBlock_PrevoutStake_cases:
  "CBlock_PrevoutStake E b =
     (if vtx b = [] then Inr (prevoutStake b)
      else if 1 < length (vtx b) \<and> IsCoinStake E (vtx b ! 1)
           then (case vin (vtx b ! 1) of [] \<Rightarrow> Inl OutOfRange | i # _ \<Rightarrow> Inr (prevout i))
           else Inr (COutPoint_null E))"
  by (simp add: CBlock_PrevoutStake_def CBlock_IsProofOfStake_total vec_at_def bind_res_def
      split: list.split)

lemma CBlock_GetProofOfStake_cases:
  "CBlock_GetProofOfStake E b =
     (if vtx b = [] then (if fStake b then Inl OutOfRange else Inr (COutPoint_null E, 0))
      else if 1 < length (vtx b) \<and> IsCoinStake E (vtx b ! 1)
           then (case vin (vtx b ! 1) of
                   [] \<Rightarrow> Inl OutOfRange
                 | i # _ \<Rightarrow> Inr (prevout i, CTransaction.nTime (vtx b ! 1)))
           else Inr (COutPoint_null E, 0))"
  by (simp add: CBlock_GetProofOfStake_def CBlock_IsProofOfStake_total vec_at_def bind_res_def
      split: list.split)

lemmas example_defs = example_lib_def example_coinbase_def example_coinstake_def
  example_payment_def example_header_def example_stake_header_def block_of_def
  example_empty_stake_block_def example_single_block_def example_pos_block_def
  example_pow_block_def CBlockHeader.extend_def CBlock.fields_def

text \<open>
  Claim C1. On an empty transaction list \<^verbatim>\<open>CBlock::IsProofOfStake\<close> returns the stored
  flag \<^verbatim>\<open>fStake\<close>; otherwise it returns true exactly when the list has more than one
  transaction and the transaction at index 1 is a coinstake. It never faults.
\<close>

theorem C1_IsProofOfStake:
  "CBlock_IsProofOfStake E b =
     Inr (if vtx b = [] then fStake b
          else 1 < length (vtx b) \<and> IsCoinStake E (vtx b ! 1))"
  by (simp add: CBlock_IsProofOfStake_def vec_at_def bind_res_def)

text \<open>The four example blocks: no transaction, one, two with and without a coinstake.\<close>

theorem C1_IsProofOfStake_witness:
  "CBlock_IsProofOfStake example_lib example_empty_stake_block = Inr True \<and>
   CBlock_IsProofOfStake example_lib example_single_block = Inr False \<and>
   CBlock_IsProofOfStake example_lib example_pos_block = Inr True \<and>
   CBlock_IsProofOfStake example_lib example_pow_block = Inr False"
  using C1_IsProofOfStake [of example_lib example_empty_stake_block]
    C1_IsProofOfStake [of example_lib example_single_block]
    C1_IsProofOfStake [of example_lib example_pos_block]
    C1_IsProofOfStake [of example_lib example_pow_block]
  by (simp add: example_defs)

text \<open>
  Claim C2. On a block with at least two transactions whose transaction at index 1
  is a coinstake, \<^verbatim>\<open>IsProofOfStake\<close> returns true, \<^verbatim>\<open>PrevoutStake\<close> returns what
  \<^verbatim>\<open>vtx[1]->vin[0].prevout\<close> evaluates to (the outpoint of the first input; a fault
  when the transaction has no input), and \<^verbatim>\<open>StakeTime\<close> returns \<^verbatim>\<open>vtx[1]->nTime\<close>.
\<close>

theorem C2_coinstake_block:
  "2 \<le> length (vtx b) \<Longrightarrow> IsCoinStake E (vtx b ! 1) \<Longrightarrow>
   CBlock_IsProofOfStake E b = Inr True \<and>
   CBlock_PrevoutStake E b =
     (case vin (vtx b ! 1) of [] \<Rightarrow> Inl OutOfRange | i # _ \<Rightarrow> Inr (prevout i)) \<and>
   CBlock_StakeTime E b = Inr (CTransaction.nTime (vtx b ! 1))"
  by (auto simp add: CBlock_IsProofOfStake_total CBlock_PrevoutStake_cases CBlock_StakeTime_total)

theorem C2_coinstake_block_witness:
  "2 \<le> length (vtx example_pos_block) \<and>
   IsCoinStake example_lib (vtx example_pos_block ! 1) \<and>
   CBlock_IsProofOfStake example_lib example_pos_block = Inr True \<and>
   CBlock_PrevoutStake example_lib example_pos_block = Inr (COutPoint 0xAA 0) \<and>
   CBlock_StakeTime example_lib example_pos_block = Inr 1600000016"
proof -
  have len: "2 \<le> length (vtx example_pos_block)"
    by (simp add: example_defs)
  have cs: "IsCoinStake example_lib (vtx example_pos_block ! 1)"
    by (simp add: example_defs)
  show ?thesis
    using len cs C2_coinstake_block [OF len cs] by (simp add: example_defs)
qed

text \<open>
  Claim C6. On a block with at least two transactions whose transaction at index 1
  is not a coinstake, \<^verbatim>\<open>IsProofOfStake\<close> returns false, \<^verbatim>\<open>PrevoutStake\<close> the null outpoint
  and \<^verbatim>\<open>StakeTime\<close> zero.
\<close>

theorem C6_not_coinstake_block:
  "2 \<le> length (vtx b) \<Longrightarrow> \<not> IsCoinStake E (vtx b ! 1) \<Longrightarrow>
   CBlock_IsProofOfStake E b = Inr False \<and>
   CBlock_PrevoutStake E b = Inr (COutPoint_null E) \<and>
   CBlock_StakeTime E b = Inr 0"
  by (auto simp add: CBlock_IsProofOfStake_total CBlock_PrevoutStake_cases CBlock_StakeTime_total)

text \<open>The example block stores a true flag; the derived one is false.\<close>

theorem C6_not_coinstake_block_witness:
  "2 \<le> length (vtx example_pow_block) \<and>
   \<not> IsCoinStake example_lib (vtx example_pow_block ! 1) \<and>
   fStake example_pow_block \<and>
   CBlock_IsProofOfStake example_lib example_pow_block = Inr False \<and>
   CBlock_PrevoutStake example_lib example_pow_block = Inr (COutPoint 0 (- 1)) \<and>
   CBlock_StakeTime example_lib example_pow_block = Inr 0"
proof -
  have len: "2 \<le> length (vtx example_pow_block)"
    by (simp add: example_defs)
  have cs: "\<not> IsCoinStake example_lib (vtx example_pow_block ! 1)"
    by (simp add: example_defs)
  show ?thesis
    using len cs C6_not_coinstake_block [OF len cs] by (simp add: example_defs)
qed

text \<open>
  Claim C10. On a block with exactly one transaction \<^verbatim>\<open>IsProofOfStake\<close> returns false,
  \<^verbatim>\<open>PrevoutStake\<close> the null outpoint and \<^verbatim>\<open>StakeTime\<close> zero: the stored fields are the
  result only when the list is empty.
\<close>

theorem C10_single_transaction:
  "length (vtx b) = 1 \<Longrightarrow>
   CBlock_IsProofOfStake E b = Inr False \<and>
   CBlock_PrevoutStake E b = Inr (COutPoint_null E) \<and>
   CBlock_StakeTime E b = Inr 0"
  by (auto simp add: CBlock_IsProofOfStake_total CBlock_PrevoutStake_cases CBlock_StakeTime_total)

text \<open>The example block stores proof-of-stake values, which are not returned.\<close>

theorem C10_single_transaction_witness:
  "length (vtx example_single_block) = 1 \<and>
   fStake example_single_block \<and>
   prevoutStake example_single_block = COutPoint 0xBB 3 \<and>
   nStakeTime example_single_block = 1500000000 \<and>
   CBlock_IsProofOfStake example_lib example_single_block = Inr False \<and>
   CBlock_PrevoutStake example_lib example_single_block = Inr (COutPoint 0 (- 1)) \<and>
   CBlock_StakeTime example_lib example_single_block = Inr 0"
proof -
  have len: "length (vtx example_single_block) = 1"
    by (simp add: example_defs)
  show ?thesis
    using len C10_single_transaction [OF len, of example_lib] by (simp add: example_defs)
qed

text \<open>
  Claim C3. Whenever \<^verbatim>\<open>PrevoutStake()\<close> returns on the block, \<^verbatim>\<open>GetBlockHeader()\<close> returns
  a header with the block's version, hashes, time, bits, nonce, state root and
  signature, whose stored \<^verbatim>\<open>fStake\<close>, \<^verbatim>\<open>prevoutStake\<close> and \<^verbatim>\<open>nStakeTime\<close> are the results
  of the block's \<^verbatim>\<open>IsProofOfStake()\<close>, \<^verbatim>\<open>PrevoutStake()\<close> and \<^verbatim>\<open>StakeTime()\<close>.
\<close>

theorem C3_GetBlockHeader:
  "CBlock_PrevoutStake E b = Inr p \<Longrightarrow>
   \<exists>h. CBlock_GetBlockHeader E b = Inr h \<and>
       nVersion h = nVersion b \<and> hashPrevBlock h = hashPrevBlock b \<and>
       hashMerkleRoot h = hashMerkleRoot b \<and> nTime h = nTime b \<and> nBits h = nBits b \<and>
       nNonce h = nNonce b \<and> hashStateRoot h = hashStateRoot b \<and>
       vchBlockSig h = vchBlockSig b \<and>
       CBlock_IsProofOfStake E b = Inr (fStake h) \<and>
       CBlock_PrevoutStake E b = Inr (prevoutStake h) \<and>
       CBlock_StakeTime E b = Inr (nStakeTime h)"
  by (simp add: CBlock_GetBlockHeader_def CBlockHeader_new_def CBlock_IsProofOfStake_total
      CBlock_StakeTime_total bind_res_def)

text \<open>The example block stores a false flag; the header returned stores the derived values.\<close>

theorem C3_GetBlockHeader_witness:
  "CBlock_PrevoutStake example_lib example_pos_block = Inr (COutPoint 0xAA 0) \<and>
   \<not> fStake example_pos_block \<and>
   CBlock_GetBlockHeader example_lib example_pos_block =
     Inr (example_header\<lparr>fStake := True, prevoutStake := COutPoint 0xAA 0,
                         nStakeTime := 1600000016\<rparr>)"
proof -
  have p: "CBlock_PrevoutStake example_lib example_pos_block = Inr (COutPoint 0xAA 0)"
    by (simp add: CBlock_PrevoutStake_cases example_defs)
  show ?thesis
    using p C3_GetBlockHeader [OF p]
    by (auto simp add: CBlock_IsProofOfStake_total CBlock_StakeTime_total example_defs)
qed

text \<open>
  Claim C5 says that none of the four operations faults and that
  \<^verbatim>\<open>GetProofOfStake()\<close> reads \<^verbatim>\<open>vtx[1]\<close> only when it exists. The block that
  \<^verbatim>\<open>CBlock(const CBlockHeader&)\<close> builds from a proof-of-stake header has no
  transaction and a true stored flag: \<^verbatim>\<open>PrevoutStake()\<close> and \<^verbatim>\<open>StakeTime()\<close> return the
  stored fields, \<^verbatim>\<open>GetProofOfStake()\<close> indexes the empty \<^verbatim>\<open>vtx\<close>.
\<close>

theorem C5_GetProofOfStake_fault:
  "CBlock_from_header example_lib (Header example_stake_header) = Inr example_empty_stake_block \<and>
   CBlock_IsProofOfStake example_lib example_empty_stake_block = Inr True \<and>
   CBlock_PrevoutStake example_lib example_empty_stake_block = Inr (COutPoint 0xBB 3) \<and>
   CBlock_StakeTime example_lib example_empty_stake_block = Inr 1500000000 \<and>
   CBlock_GetProofOfStake example_lib example_empty_stake_block = Inl OutOfRange"
  by (simp add: CBlock_IsProofOfStake_total CBlock_StakeTime_total CBlock_PrevoutStake_cases
      CBlock_GetProofOfStake_cases assign_fields_def CBlockHeader_vtable_def CBlock_new_def
      CBlockHeader_IsProofOfStake_def CBlockHeader_PrevoutStake_def CBlockHeader_StakeTime_def
      bind_res_def example_defs)

text \<open>
  \<^verbatim>\<open>SetNull()\<close> overwrites every member, so the object a constructor leaves does not
  depend on what the memory held; \<^verbatim>\<open>IsNull()\<close> holds exactly for \<^verbatim>\<open>nBits == 0\<close>.
\<close>

lemma CBlock_SetNull_new: "CBlock_SetNull E (b :: 't CBlock) = CBlock_new E"
  by (cases b) (simp add: CBlock_SetNull_def CBlockHeader_SetNull_def CBlock_new_def)

lemma CBlockHeader_SetNull_new: "CBlockHeader_SetNull E (h :: CBlockHeader) = CBlockHeader_new E"
  by (cases h) (simp add: CBlockHeader_SetNull_def CBlockHeader_new_def)

lemma CBlockHeader_SetNull_IsNull: "CBlockHeader_IsNull (CBlockHeader_SetNull E h)"
  by (simp add: CBlockHeader_IsNull_def CBlockHeader_SetNull_def)

text \<open>
  The example scenario: the header is proof of work and not null; the block built
  from it has no transaction and is not proof of stake; with a coinbase and a
  coinstake added it is proof of stake, with the coinstake's time and outpoint.
\<close>

lemma example_scenario:
  "CBlockHeader_IsProofOfWork CBlockHeader_vtable example_header = Inr True"
  "\<not> CBlockHeader_IsNull example_header"
  "CBlock_from_header example_lib (Header example_header) = Inr (block_of example_header [])"
  "CBlock_IsProofOfStake example_lib (block_of example_header []) = Inr False"
  "(block_of example_header [])\<lparr>vtx := [example_coinbase, example_coinstake]\<rparr> = example_pos_block"
  "CBlock_GetProofOfStake example_lib example_pos_block = Inr (COutPoint 0xAA 0, 1600000016)"
  by (simp_all add: CBlockHeader_IsProofOfWork_def CBlockHeader_IsNull_def
      CBlock_IsProofOfStake_total CBlock_GetProofOfStake_cases assign_fields_def
      CBlockHeader_vtable_def CBlock_new_def CBlockHeader_IsProofOfStake_def
      CBlockHeader_PrevoutStake_def CBlockHeader_StakeTime_def bind_res_def example_defs)

section \<open>Assignment through a header reference\<close>

lemma IsProofOfStake_returns: "\<exists>f. IsProofOfStake E x = Inr f"
  by (cases x)
    (simp_all add: CBlockHeader_vtable_def CBlock_vtable_def CBlockHeader_IsProofOfStake_def
      CBlock_IsProofOfStake_total)

lemma StakeTime_returns: "\<exists>t. StakeTime E x = Inr t"
  by (cases x)
    (simp_all add: CBlockHeader_vtable_def CBlock_vtable_def CBlockHeader_StakeTime_def
      CBlock_StakeTime_total)

lemma assign_fields_result:
  assumes "vIsProofOfStake vt other = Inr f" and "vPrevoutStake vt other = Inr p"
    and "vStakeTime vt other = Inr t"
  shows "assign_fields vt this other =
     Inr (this\<lparr>nVersion := nVersion other, hashPrevBlock := hashPrevBlock other,
               hashMerkleRoot := hashMerkleRoot other, nTime := nTime other,
               nBits := nBits other, nNonce := nNonce other,
               hashStateRoot := hashStateRoot other, vchBlockSig := vchBlockSig other,
               fStake := f, prevoutStake := p, nStakeTime := t\<rparr>)"
  using assms by (simp add: assign_fields_def bind_res_def)

lemma assign_object_result:
  assumes "IsProofOfStake E s = Inr f" and "PrevoutStake E s = Inr p" and "StakeTime E s = Inr t"
  shows "\<exists>d'. assign_object E d s = Inr d' \<and>
           stored d' = (stored s)\<lparr>fStake := f, prevoutStake := p, nStakeTime := t\<rparr> \<and>
           (case d of Header _ \<Rightarrow> (\<exists>h. d' = Header h)
                    | Block b \<Rightarrow> (\<exists>b'. d' = Block b' \<and> vtx b' = vtx b \<and> fChecked b' = fChecked b))"
  using assms
  by (cases d; cases s)
    (simp_all add: assign_fields_result bind_res_def CBlockHeader.truncate_def)

text \<open>
  Claim C4. After \<^verbatim>\<open>d = s\<close>, with \<^verbatim>\<open>d\<close> a header and \<^verbatim>\<open>s\<close> a header or a block on
  which \<^verbatim>\<open>PrevoutStake()\<close> returns, the stored \<^verbatim>\<open>fStake\<close>, \<^verbatim>\<open>prevoutStake\<close> and
  \<^verbatim>\<open>nStakeTime\<close> of \<^verbatim>\<open>d\<close> are the results of the virtual \<^verbatim>\<open>IsProofOfStake()\<close>,
  \<^verbatim>\<open>PrevoutStake()\<close> and \<^verbatim>\<open>StakeTime()\<close> of \<^verbatim>\<open>s\<close>; for a block these are the values
  derived from its transactions.
\<close>

theorem C4_assignment:
  assumes "H this = Some (Header d)" and "H other = Some s" and "PrevoutStake E s = Inr p"
  shows "\<exists>H' d'. CBlockHeader_assign E H this other = Inr H' \<and>
           H' this = Some (Header d') \<and>
           IsProofOfStake E s = Inr (fStake d') \<and>
           PrevoutStake E s = Inr (prevoutStake d') \<and>
           StakeTime E s = Inr (nStakeTime d')"
proof (cases "this = other")
  case True
  with assms have "s = Header d" by simp
  with True assms show ?thesis
    by (simp add: CBlockHeader_assign_def CBlockHeader_vtable_def
        CBlockHeader_IsProofOfStake_def CBlockHeader_PrevoutStake_def CBlockHeader_StakeTime_def)
next
  case False
  obtain f where f: "IsProofOfStake E s = Inr f"
    using IsProofOfStake_returns by blast
  obtain t where t: "StakeTime E s = Inr t"
    using StakeTime_returns by blast
  from assign_object_result [OF f assms(3) t, of "Header d"]
  obtain h where h: "assign_object E (Header d) s = Inr (Header h)"
    and st: "CBlockHeader.truncate h = (stored s)\<lparr>fStake := f, prevoutStake := p, nStakeTime := t\<rparr>"
    by auto
  from st have "fStake h = f" "prevoutStake h = p" "nStakeTime h = t"
    by (auto simp add: CBlockHeader.truncate_def dest: arg_cong [where f = fStake]
        arg_cong [where f = prevoutStake] arg_cong [where f = nStakeTime])
  with False assms h f t show ?thesis
    by (simp add: CBlockHeader_assign_def bind_res_def)
qed

theorem C4_assignment_witness:
  "example_store 0 = Some (Header example_stake_header) \<and>
   example_store 1 = Some (Block example_pos_block) \<and>
   \<not> fStake example_pos_block \<and>
   PrevoutStake example_lib (Block example_pos_block) = Inr (COutPoint 0xAA 0) \<and>
   (\<exists>H'. CBlockHeader_assign example_lib example_store 0 1 = Inr H' \<and>
      H' 0 = Some (Header (example_header\<lparr>fStake := True, prevoutStake := COutPoint 0xAA 0,
                                              nStakeTime := 1600000016\<rparr>)))"
proof -
  have d: "example_store 0 = Some (Header example_stake_header)"
    by (simp add: example_store_def)
  have s: "example_store 1 = Some (Block example_pos_block)"
    by (simp add: example_store_def)
  have p: "PrevoutStake example_lib (Block example_pos_block) = Inr (COutPoint 0xAA 0)"
    by (simp add: CBlock_vtable_def CBlock_PrevoutStake_cases example_defs)
  from C4_assignment [OF d s p] obtain H' d' where
    "CBlockHeader_assign example_lib example_store 0 1 = Inr H'" "H' 0 = Some (Header d')"
    by blast
  then show ?thesis
    using d s p
    by (auto simp add: CBlockHeader_assign_def assign_fields_def bind_res_def CBlock_vtable_def
        CBlock_IsProofOfStake_total CBlock_StakeTime_total example_defs)
qed

text \<open>
  The same holds for a block as destination, reached through its header part, when
  source and destination are two objects; the transactions and \<^verbatim>\<open>fChecked\<close> of the
  destination stay. Assigning an object to itself changes nothing.
\<close>

lemma assign_distinct_objects:
  assumes "H this = Some d" and "H other = Some s" and "this \<noteq> other"
    and "PrevoutStake E s = Inr p"
  shows "\<exists>H' d'. CBlockHeader_assign E H this other = Inr H' \<and>
           H' this = Some d' \<and> H' other = Some s \<and>
           IsProofOfStake E s = Inr (fStake (stored d')) \<and>
           PrevoutStake E s = Inr (prevoutStake (stored d')) \<and>
           StakeTime E s = Inr (nStakeTime (stored d'))"
proof -
  obtain f where f: "IsProofOfStake E s = Inr f"
    using IsProofOfStake_returns by blast
  obtain t where t: "StakeTime E s = Inr t"
    using StakeTime_returns by blast
  from assign_object_result [OF f assms(4) t, of d]
  obtain d' where "assign_object E d s = Inr d'"
    and "stored d' = (stored s)\<lparr>fStake := f, prevoutStake := p, nStakeTime := t\<rparr>"
    by blast
  with assms f t show ?thesis
    by (simp add: CBlockHeader_assign_def bind_res_def)
qed

lemma assign_self: "H this = Some d \<Longrightarrow> CBlockHeader_assign E H this this = Inr H"
  by (simp add: CBlockHeader_assign_def)

section \<open>Serialization\<close>

lemma CBlockHeader_vtable_sel:
  "vIsProofOfStake CBlockHeader_vtable h = Inr (fStake h)"
  "vPrevoutStake CBlockHeader_vtable h = Inr (prevoutStake h)"
  "vStakeTime CBlockHeader_vtable h = Inr (nStakeTime h)"
  by (simp_all add: CBlockHeader_vtable_def CBlockHeader_IsProofOfStake_def
      CBlockHeader_PrevoutStake_def CBlockHeader_StakeTime_def)

lemma CBlock_vtable_sel:
  "vIsProofOfStake (CBlock_vtable E) = CBlock_IsProofOfStake E"
  "vPrevoutStake (CBlock_vtable E) = CBlock_PrevoutStake E"
  "vStakeTime (CBlock_vtable E) = CBlock_StakeTime E"
  by (simp_all add: CBlock_vtable_def)

lemma CBlockHeader_Serialize_result:
  assumes "vIsProofOfStake vt this = Inr f"
    and "vPrevoutStake vt (this\<lparr>fStake := f\<rparr>) = Inr p"
    and "vStakeTime vt (this\<lparr>fStake := f, prevoutStake := p\<rparr>) = Inr t"
  shows "CBlockHeader_Serialize L vt this s =
     Inr (this\<lparr>fStake := f, prevoutStake := p, nStakeTime := t\<rparr>,
          s\<lparr>s_buf := s_buf s @ put (ser_int32 L) (nVersion this) @
             put (ser_uint256 L) (hashPrevBlock this) @
             put (ser_uint256 L) (hashMerkleRoot this) @
             put (ser_uint32 L) (nTime this) @ put (ser_uint32 L) (nBits this) @
             put (ser_uint32 L) (nNonce this) @ put (ser_uint256 L) (hashStateRoot this) @
             put (ser_bytes L) (vchBlockSig this) @ put (ser_bool L) f @
             put (ser_outpoint L) p @ put (ser_uint32 L) t\<rparr>)"
  using assms by (simp add: CBlockHeader_Serialize_def READWRITE_ser_def bind_res_def)

lemma CBlock_refresh_same:
  "CBlock_PrevoutStake E (b\<lparr>fStake := f\<rparr>) = CBlock_PrevoutStake E b"
  "CBlock_StakeTime E (b\<lparr>fStake := f, prevoutStake := p\<rparr>) = CBlock_StakeTime E b"
  by (simp_all add: CBlock_PrevoutStake_cases CBlock_StakeTime_total)

lemma CBlockHeader_Serialize_block:
  assumes "CBlock_IsProofOfStake L b = Inr f" and "CBlock_PrevoutStake L b = Inr p"
    and "CBlock_StakeTime L b = Inr t"
  shows "CBlockHeader_Serialize L (CBlock_vtable L) b s =
     Inr (b\<lparr>fStake := f, prevoutStake := p, nStakeTime := t\<rparr>,
          s\<lparr>s_buf := s_buf s @ put (ser_int32 L) (nVersion b) @
             put (ser_uint256 L) (hashPrevBlock b) @
             put (ser_uint256 L) (hashMerkleRoot b) @
             put (ser_uint32 L) (nTime b) @ put (ser_uint32 L) (nBits b) @
             put (ser_uint32 L) (nNonce b) @ put (ser_uint256 L) (hashStateRoot b) @
             put (ser_bytes L) (vchBlockSig b) @ put (ser_bool L) f @
             put (ser_outpoint L) p @ put (ser_uint32 L) t\<rparr>)"
  by (rule CBlockHeader_Serialize_result)
    (simp_all add: CBlock_vtable_sel CBlock_refresh_same assms)

lemma CBlockHeader_Serialize_header:
  "CBlockHeader_Serialize L CBlockHeader_vtable h s =
     Inr (h,
          s\<lparr>s_buf := s_buf s @ put (ser_int32 L) (nVersion h) @
             put (ser_uint256 L) (hashPrevBlock h) @
             put (ser_uint256 L) (hashMerkleRoot h) @
             put (ser_uint32 L) (nTime h) @ put (ser_uint32 L) (nBits h) @
             put (ser_uint32 L) (nNonce h) @ put (ser_uint256 L) (hashStateRoot h) @
             put (ser_bytes L) (vchBlockSig h) @ put (ser_bool L) (fStake h) @
             put (ser_outpoint L) (prevoutStake h) @ put (ser_uint32 L) (nStakeTime h)\<rparr>)"
  using CBlockHeader_Serialize_result [of CBlockHeader_vtable h "fStake h" "prevoutStake h"
      "nStakeTime h" L s]
  by (simp add: CBlockHeader_vtable_sel)

text \<open>
  Claim C8. When a header or a block is serialized through
  \<^verbatim>\<open>CBlockHeader::SerializationOp\<close> (and \<^verbatim>\<open>PrevoutStake()\<close> returns on it), the three stake
  values written after the signature are the results of the virtual
  \<^verbatim>\<open>IsProofOfStake()\<close>, \<^verbatim>\<open>PrevoutStake()\<close> and \<^verbatim>\<open>StakeTime()\<close> of the object, and the
  object leaves the call with these results in its stored fields. A block written
  by \<^verbatim>\<open>CBlock::SerializationOp\<close> is these bytes followed by its transactions.
\<close>

theorem C8_serialize_refreshes:
  assumes "PrevoutStake L x = Inr p"
  shows "\<exists>x' f t enc. IsProofOfStake L x = Inr f \<and> StakeTime L x = Inr t \<and>
     enc = put (ser_int32 L) (nVersion (stored x)) @
           put (ser_uint256 L) (hashPrevBlock (stored x)) @
           put (ser_uint256 L) (hashMerkleRoot (stored x)) @
           put (ser_uint32 L) (nTime (stored x)) @
           put (ser_uint32 L) (nBits (stored x)) @
           put (ser_uint32 L) (nNonce (stored x)) @
           put (ser_uint256 L) (hashStateRoot (stored x)) @
           put (ser_bytes L) (vchBlockSig (stored x)) @
           put (ser_bool L) f @ put (ser_outpoint L) p @ put (ser_uint32 L) t \<and>
     Serialize_header_of L x s = Inr (x', s\<lparr>s_buf := s_buf s @ enc\<rparr>) \<and>
     stored x' = (stored x)\<lparr>fStake := f, prevoutStake := p, nStakeTime := t\<rparr> \<and>
     (\<forall>b. x = Block b \<longrightarrow>
        (\<exists>b'. x' = Block b' \<and>
           CBlock_Serialize L b s =
             Inr (b', s\<lparr>s_buf := s_buf s @ enc @ put (ser_vtx L) (vtx b)\<rparr>)))"
proof (cases x)
  case (Header h)
  with assms have "p = prevoutStake h"
    by (simp add: CBlockHeader_vtable_sel)
  with Header show ?thesis
    by (simp add: CBlockHeader_Serialize_header bind_res_def CBlockHeader_vtable_sel
        CBlockHeader.truncate_def)
next
  case (Block b)
  obtain f where f: "CBlock_IsProofOfStake L b = Inr f"
    by (simp add: CBlock_IsProofOfStake_total)
  obtain t where t: "CBlock_StakeTime L b = Inr t"
    by (simp add: CBlock_StakeTime_total)
  from assms Block have p: "CBlock_PrevoutStake L b = Inr p"
    by (simp add: CBlock_vtable_sel)
  show ?thesis
    using Block f t p
    by (simp add: CBlock_Serialize_def CBlockHeader_Serialize_block [OF f p t] bind_res_def
        CBlock_vtable_sel CBlockHeader.truncate_def READWRITE_ser_def)
qed

theorem C8_serialize_refreshes_witness:
  "PrevoutStake example_lib (Block example_pos_block) = Inr (COutPoint 0xAA 0) \<and>
   \<not> fStake (stored (Block example_pos_block)) \<and>
   prevoutStake (stored (Block example_pos_block)) = COutPoint 0 (- 1) \<and>
   nStakeTime (stored (Block example_pos_block)) = 0 \<and>
   (\<exists>x'. Serialize_header_of example_lib (Block example_pos_block) example_stream =
       Inr (x', example_stream\<lparr>s_buf :=
              put (word_codec 4) (1 :: 32 word) @ put (word_codec 32) (7 :: 256 word) @
              put (word_codec 32) (9 :: 256 word) @ put (word_codec 4) (1600000016 :: 32 word) @
              put (word_codec 4) (0x1d00ffff :: 32 word) @ put (word_codec 4) (0 :: 32 word) @
              put (word_codec 32) (11 :: 256 word) @
              put (vector_codec (word_codec 1)) ([] :: byte list) @
              put bool_codec True @ put outpoint_codec (COutPoint 0xAA 0) @
              put (word_codec 4) (1600000016 :: 32 word)\<rparr>) \<and>
       stored x' = example_header\<lparr>fStake := True, prevoutStake := COutPoint 0xAA 0,
                                  nStakeTime := 1600000016\<rparr>)"
proof -
  have p: "PrevoutStake example_lib (Block example_pos_block) = Inr (COutPoint 0xAA 0)"
    by (simp add: CBlock_vtable_sel CBlock_PrevoutStake_cases example_defs)
  from C8_serialize_refreshes [OF p, of example_stream]
  show ?thesis
    using p
    by (auto simp add: CBlock_vtable_sel CBlock_IsProofOfStake_total CBlock_StakeTime_total
        example_stream_def CBlockHeader.truncate_def example_defs)
qed

text \<open>
  Claim C9. Outside hash computation (\<^verbatim>\<open>GetType() & SER_GETHASH\<close> is zero) a locator is
  written as the stream's version followed by the hash sequence; under hash
  computation only the hash sequence is written. On two streams that start empty,
  the first output is the version's bytes followed by the second output.
\<close>

theorem C9_locator_encodings:
  "(s_type s AND SER_GETHASH L = 0 \<longrightarrow>
      CBlockLocator_Serialize L loc s =
        (loc, s\<lparr>s_buf := s_buf s @ put (ser_int32 L) (s_version s) @
                          put (ser_hashes L) (vHave loc)\<rparr>)) \<and>
   (s_type s AND SER_GETHASH L \<noteq> 0 \<longrightarrow>
      CBlockLocator_Serialize L loc s =
        (loc, s\<lparr>s_buf := s_buf s @ put (ser_hashes L) (vHave loc)\<rparr>)) \<and>
   (s_type s AND SER_GETHASH L = 0 \<and> s_type s' AND SER_GETHASH L \<noteq> 0 \<and>
    s_buf s = [] \<and> s_buf s' = [] \<longrightarrow>
      s_buf (snd (CBlockLocator_Serialize L loc s)) =
        put (ser_int32 L) (s_version s) @ s_buf (snd (CBlockLocator_Serialize L loc s')))"
  by (simp add: CBlockLocator_Serialize_def READWRITE_ser_def)

theorem C9_locator_encodings_witness:
  "s_type example_stream AND SER_GETHASH example_lib = 0 \<and>
   s_type example_hash_stream AND SER_GETHASH example_lib \<noteq> 0 \<and>
   s_buf example_stream = [] \<and> s_buf example_hash_stream = [] \<and>
   s_buf (snd (CBlockLocator_Serialize example_lib example_locator example_hash_stream)) =
     put (vector_codec (word_codec 32)) [0x1234, 0x99, 0 :: 256 word] \<and>
   s_buf (snd (CBlockLocator_Serialize example_lib example_locator example_stream)) =
     put (word_codec 4) (70016 :: 32 word) @
     s_buf (snd (CBlockLocator_Serialize example_lib example_locator example_hash_stream))"
  using C9_locator_encodings [of example_stream example_lib example_locator example_hash_stream]
    C9_locator_encodings [of example_hash_stream example_lib example_locator example_hash_stream]
  by (simp add: example_stream_def example_hash_stream_def example_locator_def example_lib_def)

section \<open>Decoding an encoding\<close>

subsection \<open>Reading back what was written\<close>

lemma READWRITE_unser_put:
  "codec_on c v \<Longrightarrow> READWRITE_unser c (s\<lparr>s_buf := put c v @ rest\<rparr>) = Inr (v, s\<lparr>s_buf := rest\<rparr>)"
  by (simp add: READWRITE_unser_def codec_on_def)

lemma CBlockHeader_Unserialize_header:
  assumes "header_codable L h"
  shows "CBlockHeader_Unserialize L CBlockHeader_vtable (d :: CBlockHeader)
       (s\<lparr>s_buf := put (ser_int32 L) (nVersion h) @
             put (ser_uint256 L) (hashPrevBlock h) @
             put (ser_uint256 L) (hashMerkleRoot h) @
             put (ser_uint32 L) (nTime h) @ put (ser_uint32 L) (nBits h) @
             put (ser_uint32 L) (nNonce h) @ put (ser_uint256 L) (hashStateRoot h) @
             put (ser_bytes L) (vchBlockSig h) @ put (ser_bool L) (fStake h) @
             put (ser_outpoint L) (prevoutStake h) @ put (ser_uint32 L) (nStakeTime h) @ rest\<rparr>) =
     Inr (CBlockHeader.truncate h, s\<lparr>s_buf := rest\<rparr>)"
  using assms
  by (simp add: header_codable_def CBlockHeader_Unserialize_def READWRITE_unser_put
      bind_res_def CBlockHeader_vtable_sel CBlockHeader.truncate_def)

lemma CBlockHeader_Unserialize_block:
  assumes "header_codable L h" and "CBlock_PrevoutStake L d = Inr q"
  shows "CBlockHeader_Unserialize L (CBlock_vtable L) (d :: 't CBlock)
       (s\<lparr>s_buf := put (ser_int32 L) (nVersion h) @
             put (ser_uint256 L) (hashPrevBlock h) @
             put (ser_uint256 L) (hashMerkleRoot h) @
             put (ser_uint32 L) (nTime h) @ put (ser_uint32 L) (nBits h) @
             put (ser_uint32 L) (nNonce h) @ put (ser_uint256 L) (hashStateRoot h) @
             put (ser_bytes L) (vchBlockSig h) @ put (ser_bool L) (fStake h) @
             put (ser_outpoint L) (prevoutStake h) @ put (ser_uint32 L) (nStakeTime h) @ rest\<rparr>) =
     Inr (d\<lparr>nVersion := nVersion h, hashPrevBlock := hashPrevBlock h,
            hashMerkleRoot := hashMerkleRoot h, nTime := nTime h, nBits := nBits h,
            nNonce := nNonce h, hashStateRoot := hashStateRoot h,
            vchBlockSig := vchBlockSig h, fStake := fStake h,
            prevoutStake := prevoutStake h, nStakeTime := nStakeTime h\<rparr>,
          s\<lparr>s_buf := rest\<rparr>)"
proof -
  have q: "\<And>g. CBlock_PrevoutStake L (d\<lparr>nVersion := nVersion h, hashPrevBlock := hashPrevBlock h,
      hashMerkleRoot := hashMerkleRoot h, nTime := nTime h, nBits := nBits h, nNonce := nNonce h,
      hashStateRoot := hashStateRoot h, vchBlockSig := vchBlockSig h, fStake := g\<rparr>) = Inr q"
    using assms(2) by (auto simp add: CBlock_PrevoutStake_cases split: if_splits)
  show ?thesis
    using assms(1)
    by (simp add: header_codable_def CBlockHeader_Unserialize_def READWRITE_unser_put
      bind_res_def CBlock_vtable_sel CBlock_IsProofOfStake_total CBlock_StakeTime_total q
      del: One_nat_def)
qed

lemma block_update_all:
  "(d :: 't CBlock)\<lparr>nVersion := nVersion b, hashPrevBlock := hashPrevBlock b,
      hashMerkleRoot := hashMerkleRoot b, nTime := nTime b, nBits := nBits b,
      nNonce := nNonce b, hashStateRoot := hashStateRoot b,
      vchBlockSig := vchBlockSig b, fStake := fStake b,
      prevoutStake := prevoutStake b, nStakeTime := nStakeTime b, vtx := vtx b\<rparr> =
   b\<lparr>fChecked := fChecked d\<rparr>"
  by (cases d; cases b) simp

lemma CBlockLocator_Unserialize_versioned:
  assumes "codec_on (ser_int32 L) ver" and "codec_on (ser_hashes L) (vHave loc)"
    and "s_type s AND SER_GETHASH L = 0"
  shows "CBlockLocator_Unserialize L d
         (s\<lparr>s_buf := put (ser_int32 L) ver @ put (ser_hashes L) (vHave loc) @ rest\<rparr>) =
       Inr (loc, s\<lparr>s_buf := rest\<rparr>)"
  using assms
  by (cases d; cases loc)
    (simp add: CBlockLocator_Unserialize_def READWRITE_unser_put bind_res_def)

lemma CBlockLocator_Unserialize_hash:
  assumes "codec_on (ser_hashes L) (vHave loc)" and "s_type s AND SER_GETHASH L \<noteq> 0"
  shows "CBlockLocator_Unserialize L d (s\<lparr>s_buf := put (ser_hashes L) (vHave loc) @ rest\<rparr>) =
       Inr (loc, s\<lparr>s_buf := rest\<rparr>)"
  using assms
  by (cases d; cases loc)
    (simp add: CBlockLocator_Unserialize_def READWRITE_unser_put bind_res_def)

text \<open>
  Claim C7. Reading back what \<^verbatim>\<open>Serialize\<close> wrote returns the object as \<^verbatim>\<open>Serialize\<close>
  left it, that is with the three stake fields holding the derived values, provided
  the library reads back each field value it wrote:
  \<^item> a header is read back into any header, field for field;
  \<^item> a block is read back into any block on which \<^verbatim>\<open>PrevoutStake()\<close> returns (a new
    block is one), header fields and transactions; \<^verbatim>\<open>fChecked\<close>, which is not
    serialized, stays as the destination has it;
  \<^item> a locator is read back from a stream of the same kind (hash computation or
    not) as the one it was written to.
\<close>

theorem C7_roundtrip:
  "(header_codable L (h :: CBlockHeader) \<longrightarrow>
      (\<exists>enc. CBlockHeader_Serialize L CBlockHeader_vtable h s0 =
                Inr (h, s0\<lparr>s_buf := s_buf s0 @ enc\<rparr>) \<and>
         (\<forall>d s rest. CBlockHeader_Unserialize L CBlockHeader_vtable d (s\<lparr>s_buf := enc @ rest\<rparr>) =
                Inr (h, s\<lparr>s_buf := rest\<rparr>)))) \<and>
   (CBlock_IsProofOfStake L b = Inr f \<and> CBlock_PrevoutStake L b = Inr p \<and>
    CBlock_StakeTime L b = Inr t \<and>
    b' = (b :: 't CBlock)\<lparr>fStake := f, prevoutStake := p, nStakeTime := t\<rparr> \<and>
    header_codable L b' \<and> codec_on (ser_vtx L) (vtx b') \<longrightarrow>
      (\<exists>enc. CBlock_Serialize L b s0 = Inr (b', s0\<lparr>s_buf := s_buf s0 @ enc\<rparr>) \<and>
         (\<forall>d q s rest. CBlock_PrevoutStake L d = Inr q \<longrightarrow>
            CBlock_Unserialize L d (s\<lparr>s_buf := enc @ rest\<rparr>) =
              Inr (b'\<lparr>fChecked := fChecked d\<rparr>, s\<lparr>s_buf := rest\<rparr>)))) \<and>
   (codec_on (ser_int32 L) (s_version s0) \<and> codec_on (ser_hashes L) (vHave loc) \<longrightarrow>
      (\<exists>enc. CBlockLocator_Serialize L loc s0 = (loc, s0\<lparr>s_buf := s_buf s0 @ enc\<rparr>) \<and>
         (\<forall>d s rest. (s_type s AND SER_GETHASH L = 0 \<longleftrightarrow> s_type s0 AND SER_GETHASH L = 0) \<longrightarrow>
            CBlockLocator_Unserialize L d (s\<lparr>s_buf := enc @ rest\<rparr>) =
              Inr (loc, s\<lparr>s_buf := rest\<rparr>))))"
proof (intro conjI impI)
  assume c: "header_codable L h"
  show "\<exists>enc. CBlockHeader_Serialize L CBlockHeader_vtable h s0 =
                Inr (h, s0\<lparr>s_buf := s_buf s0 @ enc\<rparr>) \<and>
         (\<forall>d s rest. CBlockHeader_Unserialize L CBlockHeader_vtable d (s\<lparr>s_buf := enc @ rest\<rparr>) =
                Inr (h, s\<lparr>s_buf := rest\<rparr>))"
  proof (intro exI conjI allI)
    show "CBlockHeader_Serialize L CBlockHeader_vtable h s0 =
        Inr (h, s0\<lparr>s_buf := s_buf s0 @ put (ser_int32 L) (nVersion h) @
             put (ser_uint256 L) (hashPrevBlock h) @
             put (ser_uint256 L) (hashMerkleRoot h) @
             put (ser_uint32 L) (nTime h) @ put (ser_uint32 L) (nBits h) @
             put (ser_uint32 L) (nNonce h) @ put (ser_uint256 L) (hashStateRoot h) @
             put (ser_bytes L) (vchBlockSig h) @ put (ser_bool L) (fStake h) @
             put (ser_outpoint L) (prevoutStake h) @ put (ser_uint32 L) (nStakeTime h)\<rparr>)"
      by (rule CBlockHeader_Serialize_header)
  next
    fix d s rest
    show "CBlockHeader_Unserialize L CBlockHeader_vtable d
        (s\<lparr>s_buf := (put (ser_int32 L) (nVersion h) @
             put (ser_uint256 L) (hashPrevBlock h) @
             put (ser_uint256 L) (hashMerkleRoot h) @
             put (ser_uint32 L) (nTime h) @ put (ser_uint32 L) (nBits h) @
             put (ser_uint32 L) (nNonce h) @ put (ser_uint256 L) (hashStateRoot h) @
             put (ser_bytes L) (vchBlockSig h) @ put (ser_bool L) (fStake h) @
             put (ser_outpoint L) (prevoutStake h) @ put (ser_uint32 L) (nStakeTime h)) @ rest\<rparr>) =
        Inr (h, s\<lparr>s_buf := rest\<rparr>)"
      using CBlockHeader_Unserialize_header [OF c]
      by (simp add: CBlockHeader.truncate_def)
  qed
next
  assume a: "CBlock_IsProofOfStake L b = Inr f \<and> CBlock_PrevoutStake L b = Inr p \<and>
    CBlock_StakeTime L b = Inr t \<and>
    b' = b\<lparr>fStake := f, prevoutStake := p, nStakeTime := t\<rparr> \<and>
    header_codable L b' \<and> codec_on (ser_vtx L) (vtx b')"
  then have f: "CBlock_IsProofOfStake L b = Inr f" and p: "CBlock_PrevoutStake L b = Inr p"
    and t: "CBlock_StakeTime L b = Inr t"
    and b': "b' = b\<lparr>fStake := f, prevoutStake := p, nStakeTime := t\<rparr>"
    and c: "header_codable L b'" and cv: "codec_on (ser_vtx L) (vtx b')"
    by blast+
  let ?enc = "put (ser_int32 L) (nVersion b') @ put (ser_uint256 L) (hashPrevBlock b') @
     put (ser_uint256 L) (hashMerkleRoot b') @ put (ser_uint32 L) (nTime b') @
     put (ser_uint32 L) (nBits b') @ put (ser_uint32 L) (nNonce b') @
     put (ser_uint256 L) (hashStateRoot b') @ put (ser_bytes L) (vchBlockSig b') @
     put (ser_bool L) (fStake b') @ put (ser_outpoint L) (prevoutStake b') @
     put (ser_uint32 L) (nStakeTime b') @ put (ser_vtx L) (vtx b')"
  have ser: "CBlock_Serialize L b s0 = Inr (b', s0\<lparr>s_buf := s_buf s0 @ ?enc\<rparr>)"
    by (simp add: CBlock_Serialize_def CBlockHeader_Serialize_block [OF f p t] bind_res_def
        READWRITE_ser_def b')
  have unser: "CBlock_Unserialize L d (s\<lparr>s_buf := ?enc @ rest\<rparr>) =
      Inr (b'\<lparr>fChecked := fChecked d\<rparr>, s\<lparr>s_buf := rest\<rparr>)"
    if q: "CBlock_PrevoutStake L d = Inr q" for d q s rest
    using cv
    by (simp add: CBlock_Unserialize_def CBlockHeader_Unserialize_block [OF c q] bind_res_def
        READWRITE_unser_put block_update_all)
  show "\<exists>enc. CBlock_Serialize L b s0 = Inr (b', s0\<lparr>s_buf := s_buf s0 @ enc\<rparr>) \<and>
         (\<forall>d q s rest. CBlock_PrevoutStake L d = Inr q \<longrightarrow>
            CBlock_Unserialize L d (s\<lparr>s_buf := enc @ rest\<rparr>) =
              Inr (b'\<lparr>fChecked := fChecked d\<rparr>, s\<lparr>s_buf := rest\<rparr>))"
    using ser unser by blast
next
  assume a: "codec_on (ser_int32 L) (s_version s0) \<and> codec_on (ser_hashes L) (vHave loc)"
  show "\<exists>enc. CBlockLocator_Serialize L loc s0 = (loc, s0\<lparr>s_buf := s_buf s0 @ enc\<rparr>) \<and>
         (\<forall>d s rest. (s_type s AND SER_GETHASH L = 0 \<longleftrightarrow> s_type s0 AND SER_GETHASH L = 0) \<longrightarrow>
            CBlockLocator_Unserialize L d (s\<lparr>s_buf := enc @ rest\<rparr>) =
              Inr (loc, s\<lparr>s_buf := rest\<rparr>))"
  proof (cases "s_type s0 AND SER_GETHASH L = 0")
    case True
    with a show ?thesis
      by (intro exI [of _ "put (ser_int32 L) (s_version s0) @ put (ser_hashes L) (vHave loc)"])
        (simp add: CBlockLocator_Serialize_def READWRITE_ser_def CBlockLocator_Unserialize_versioned)
  next
    case False
    with a show ?thesis
      by (intro exI [of _ "put (ser_hashes L) (vHave loc)"])
        (simp add: CBlockLocator_Serialize_def READWRITE_ser_def CBlockLocator_Unserialize_hash)
  qed
qed

subsection \<open>The byte-level instance reads back what it writes\<close>

lemma length_le_bytes: "length (le_bytes k v) = k"
  by (induction k arbitrary: v) simp_all

lemma le_nat_le_bytes: "v < 256 ^ k \<Longrightarrow> le_nat (le_bytes k v) = v"
proof (induction k arbitrary: v)
  case 0
  then show ?case by simp
next
  case (Suc k)
  from Suc.prems have "v div 256 < 256 ^ k"
    by (simp add: less_mult_imp_div_less mult.commute)
  then have "le_nat (le_bytes k (v div 256)) = v div 256"
    by (rule Suc.IH)
  moreover have "unat (of_nat (v mod 256) :: byte) = v mod 256"
    by (simp add: unat_of_nat)
  ultimately show ?case by simp
qed

lemma get_le_le_bytes: "v < 256 ^ k \<Longrightarrow> get_le k (le_bytes k v @ rest) = Some (v, rest)"
  by (simp add: get_le_def length_le_bytes le_nat_le_bytes)

lemma codec_on_word_codec: "unat w < 256 ^ k \<Longrightarrow> codec_on (word_codec k) w"
  by (simp add: codec_on_def word_codec_def put_def get_def get_le_le_bytes)

lemma codec_on_word32: "codec_on (word_codec 4) (w :: 32 word)"
proof (rule codec_on_word_codec)
  have "unat w < 2 ^ LENGTH(32)" by (rule unsigned_less)
  then show "unat w < 256 ^ 4" by simp
qed

lemma codec_on_word256: "codec_on (word_codec 32) (w :: 256 word)"
proof (rule codec_on_word_codec)
  have "unat w < 2 ^ LENGTH(256)" by (rule unsigned_less)
  then show "unat w < 256 ^ 32" by simp
qed

lemma codec_on_byte: "codec_on (word_codec 1) (w :: byte)"
proof (rule codec_on_word_codec)
  have "unat w < 2 ^ LENGTH(8)" by (rule unsigned_less)
  then show "unat w < 256 ^ 1" by simp
qed

lemma codec_on_bool: "codec_on bool_codec v"
  by (simp add: codec_on_def bool_codec_def put_def get_def)

lemma codec_on_outpoint: "codec_on outpoint_codec v"
  using codec_on_word256 [of "outpoint_hash v"] codec_on_word32 [of "outpoint_n v"]
  by (simp add: codec_on_def outpoint_codec_def put_def get_def)

lemma get_size_put_size: "k < 2 ^ 64 \<Longrightarrow> get_size (put_size k @ rest) = Some (k, rest)"
proof -
  assume k: "k < 2 ^ 64"
  have small: "k < 253 \<Longrightarrow> (of_nat k :: byte) < 253 \<and> unat (of_nat k :: byte) = k"
    by (simp add: word_less_nat_alt unat_of_nat)
  have b: "\<not> (253 :: byte) < 253" "\<not> (254 :: byte) < 253" "\<not> (255 :: byte) < 253"
    "(254 :: byte) \<noteq> 253" "(255 :: byte) \<noteq> 253" "(255 :: byte) \<noteq> 254"
    by simp_all
  show ?thesis
  proof (cases "k < 253")
    case True
    with small show ?thesis
      by (simp add: put_size_def get_size_def)
  next
    case False
    then show ?thesis
      using k b by (simp add: put_size_def get_size_def get_le_le_bytes)
  qed
qed

lemma get_many_concat:
  "(\<forall>x \<in> set xs. codec_on c x) \<Longrightarrow>
   get_many c (length xs) (concat (map (put c) xs) @ rest) = Some (xs, rest)"
  by (induction xs) (simp_all add: codec_on_def)

lemma codec_on_vector:
  "length xs < 2 ^ 64 \<Longrightarrow> (\<forall>x \<in> set xs. codec_on c x) \<Longrightarrow> codec_on (vector_codec c) xs"
  by (simp add: codec_on_def vector_codec_def put_def [of "(_, _)"] get_def [of "(_, _)"]
      get_size_put_size get_many_concat)

lemma codec_on_txin: "codec_on txin_codec v"
  using codec_on_outpoint [of "prevout v"]
  by (cases v) (simp add: codec_on_def txin_codec_def put_def [of "(_, _)"] get_def [of "(_, _)"])

lemma codec_on_tx:
  assumes "length (vin v) < 2 ^ 64"
  shows "codec_on tx_codec v"
proof -
  have tm: "get (word_codec 4) (put (word_codec 4) (CTransaction.nTime v) @ rest) =
      Some (CTransaction.nTime v, rest)" for rest
    using codec_on_word32 [of "CTransaction.nTime v"] by (simp add: codec_on_def)
  have "codec_on (vector_codec txin_codec) (vin v)"
    using assms by (rule codec_on_vector) (simp add: codec_on_txin)
  then have ins: "get (vector_codec txin_codec) (put (vector_codec txin_codec) (vin v) @ rest) =
      Some (vin v, rest)" for rest
    by (simp add: codec_on_def)
  show ?thesis
    by (simp add: codec_on_def tx_codec_def put_def [of "(_, _)"] get_def [of "(_, _)"] tm ins)
qed

lemma header_codable_example_lib:
  assumes "length (vchBlockSig h) < 2 ^ 64"
  shows "header_codable example_lib h"
proof -
  have "codec_on (vector_codec (word_codec 1)) (vchBlockSig h)"
    using assms by (rule codec_on_vector) (simp add: codec_on_byte del: One_nat_def)
  then show ?thesis
    by (simp add: header_codable_def example_lib_def codec_on_word32 codec_on_word256
        codec_on_bool codec_on_outpoint del: One_nat_def)
qed

theorem C7_roundtrip_witness:
  "header_codable example_lib example_stake_header \<and>
   (\<exists>enc. CBlockHeader_Serialize example_lib CBlockHeader_vtable example_stake_header
             example_stream = Inr (example_stake_header, example_stream\<lparr>s_buf := enc\<rparr>) \<and>
      CBlockHeader_Unserialize example_lib CBlockHeader_vtable (CBlockHeader_new example_lib)
             (example_stream\<lparr>s_buf := enc\<rparr>) = Inr (example_stake_header, example_stream)) \<and>
   CBlock_IsProofOfStake example_lib example_pos_block = Inr True \<and>
   CBlock_PrevoutStake example_lib example_pos_block = Inr (COutPoint 0xAA 0) \<and>
   CBlock_StakeTime example_lib example_pos_block = Inr 1600000016 \<and>
   \<not> fStake example_pos_block \<and>
   header_codable example_lib
     (example_pos_block\<lparr>fStake := True, prevoutStake := COutPoint 0xAA 0,
                         nStakeTime := 1600000016\<rparr>) \<and>
   codec_on (ser_vtx example_lib) (vtx example_pos_block) \<and>
   CBlock_PrevoutStake example_lib (CBlock_new example_lib) = Inr (COutPoint 0 (- 1)) \<and>
   (\<exists>enc. CBlock_Serialize example_lib example_pos_block example_stream =
             Inr (example_pos_block\<lparr>fStake := True, prevoutStake := COutPoint 0xAA 0,
                                      nStakeTime := 1600000016\<rparr>,
                  example_stream\<lparr>s_buf := enc\<rparr>) \<and>
      CBlock_Unserialize example_lib (CBlock_new example_lib) (example_stream\<lparr>s_buf := enc\<rparr>) =
             Inr (example_pos_block\<lparr>fStake := True, prevoutStake := COutPoint 0xAA 0,
                                      nStakeTime := 1600000016\<rparr>, example_stream)) \<and>
   codec_on (ser_int32 example_lib) (s_version example_stream) \<and>
   codec_on (ser_hashes example_lib) (vHave example_locator) \<and>
   (\<exists>enc. CBlockLocator_Serialize example_lib example_locator example_stream =
             (example_locator, example_stream\<lparr>s_buf := enc\<rparr>) \<and>
      CBlockLocator_Unserialize example_lib \<lparr>vHave = []\<rparr> (example_stream\<lparr>s_buf := enc\<rparr>) =
             Inr (example_locator, example_stream))"
proof -
  let ?b' = "example_pos_block\<lparr>fStake := True, prevoutStake := COutPoint 0xAA 0,
                                nStakeTime := 1600000016\<rparr>"
  have buf: "s_buf example_stream = []" "\<And>enc. example_stream\<lparr>s_buf := []\<rparr> = example_stream"
    by (simp_all add: example_stream_def)
  have h: "header_codable example_lib example_stake_header"
    by (rule header_codable_example_lib) (simp add: example_defs)
  have f: "CBlock_IsProofOfStake example_lib example_pos_block = Inr True"
    by (simp add: CBlock_IsProofOfStake_total example_defs)
  have p: "CBlock_PrevoutStake example_lib example_pos_block = Inr (COutPoint 0xAA 0)"
    by (simp add: CBlock_PrevoutStake_cases example_defs)
  have t: "CBlock_StakeTime example_lib example_pos_block = Inr 1600000016"
    by (simp add: CBlock_StakeTime_total example_defs)
  have stale: "\<not> fStake example_pos_block"
    by (simp add: example_defs)
  have hb: "header_codable example_lib ?b'"
    by (rule header_codable_example_lib) (simp add: example_defs)
  have "codec_on tx_codec example_coinbase" "codec_on tx_codec example_coinstake"
    by (rule codec_on_tx, simp add: example_defs)+
  then have "codec_on (vector_codec tx_codec) [example_coinbase, example_coinstake]"
    by (intro codec_on_vector) simp_all
  then have v: "codec_on (ser_vtx example_lib) (vtx ?b')"
    by (simp add: example_lib_def example_pos_block_def block_of_def CBlockHeader.extend_def
        CBlock.fields_def)
  have q: "CBlock_PrevoutStake example_lib (CBlock_new example_lib) = Inr (COutPoint 0 (- 1))"
    by (simp add: CBlock_PrevoutStake_cases CBlock_new_def example_lib_def)
  have fc: "?b'\<lparr>fChecked := fChecked (CBlock_new example_lib)\<rparr> = ?b'"
    by (simp add: CBlock_new_def example_defs)
  have ver: "codec_on (ser_int32 example_lib) (s_version example_stream)"
    by (simp add: example_lib_def codec_on_word32)
  have "codec_on (vector_codec (word_codec 32)) [0x1234, 0x99, 0 :: 256 word]"
    by (rule codec_on_vector) (simp_all add: codec_on_word256)
  then have hs: "codec_on (ser_hashes example_lib) (vHave example_locator)"
    by (simp add: example_lib_def example_locator_def)
  note rt = C7_roundtrip [of example_lib example_stake_header example_stream example_pos_block
      True "COutPoint 0xAA 0" 1600000016 ?b' example_locator]
  from rt [THEN conjunct1, THEN mp, OF h] obtain e1 where
    s1: "CBlockHeader_Serialize example_lib CBlockHeader_vtable example_stake_header
           example_stream =
         Inr (example_stake_header, example_stream\<lparr>s_buf := s_buf example_stream @ e1\<rparr>)"
    and u1: "\<And>d s rest. CBlockHeader_Unserialize example_lib CBlockHeader_vtable d
           (s\<lparr>s_buf := e1 @ rest\<rparr>) = Inr (example_stake_header, s\<lparr>s_buf := rest\<rparr>)"
    by blast
  have "CBlock_IsProofOfStake example_lib example_pos_block = Inr True \<and>
      CBlock_PrevoutStake example_lib example_pos_block = Inr (COutPoint 0xAA 0) \<and>
      CBlock_StakeTime example_lib example_pos_block = Inr 1600000016 \<and>
      ?b' = ?b' \<and> header_codable example_lib ?b' \<and> codec_on (ser_vtx example_lib) (vtx ?b')"
    by (intro conjI refl f p t hb v)
  from rt [THEN conjunct2, THEN conjunct1, THEN mp, OF this] obtain e2 where
    s2: "CBlock_Serialize example_lib example_pos_block example_stream =
           Inr (?b', example_stream\<lparr>s_buf := s_buf example_stream @ e2\<rparr>)"
    and u2: "\<And>d q s rest. CBlock_PrevoutStake example_lib d = Inr q \<Longrightarrow>
         CBlock_Unserialize example_lib d (s\<lparr>s_buf := e2 @ rest\<rparr>) =
           Inr (?b'\<lparr>fChecked := fChecked d\<rparr>, s\<lparr>s_buf := rest\<rparr>)"
    by blast
  from rt [THEN conjunct2, THEN conjunct2, THEN mp, OF conjI [OF ver hs]] obtain e3 where
    s3: "CBlockLocator_Serialize example_lib example_locator example_stream =
           (example_locator, example_stream\<lparr>s_buf := s_buf example_stream @ e3\<rparr>)"
    and u3: "\<And>d s rest.
         (s_type s AND SER_GETHASH example_lib = 0) =
         (s_type example_stream AND SER_GETHASH example_lib = 0) \<Longrightarrow>
         CBlockLocator_Unserialize example_lib d (s\<lparr>s_buf := e3 @ rest\<rparr>) =
           Inr (example_locator, s\<lparr>s_buf := rest\<rparr>)"
    by blast
  have "CBlockHeader_Unserialize example_lib CBlockHeader_vtable (CBlockHeader_new example_lib)
      (example_stream\<lparr>s_buf := e1 @ []\<rparr>) =
      Inr (example_stake_header, example_stream\<lparr>s_buf := []\<rparr>)"
    by (rule u1)
  with s1 have r1: "\<exists>enc. CBlockHeader_Serialize example_lib CBlockHeader_vtable
             example_stake_header example_stream =
             Inr (example_stake_header, example_stream\<lparr>s_buf := enc\<rparr>) \<and>
      CBlockHeader_Unserialize example_lib CBlockHeader_vtable (CBlockHeader_new example_lib)
             (example_stream\<lparr>s_buf := enc\<rparr>) = Inr (example_stake_header, example_stream)"
    by (intro exI [of _ e1]) (simp add: buf)
  have "CBlock_Unserialize example_lib (CBlock_new example_lib)
      (example_stream\<lparr>s_buf := e2 @ []\<rparr>) =
      Inr (?b'\<lparr>fChecked := fChecked (CBlock_new example_lib)\<rparr>, example_stream\<lparr>s_buf := []\<rparr>)"
    using q by (rule u2)
  with s2 have r2: "\<exists>enc. CBlock_Serialize example_lib example_pos_block example_stream =
             Inr (?b', example_stream\<lparr>s_buf := enc\<rparr>) \<and>
      CBlock_Unserialize example_lib (CBlock_new example_lib) (example_stream\<lparr>s_buf := enc\<rparr>) =
             Inr (?b', example_stream)"
    by (intro exI [of _ e2]) (simp add: buf fc)
  have "CBlockLocator_Unserialize example_lib \<lparr>vHave = []\<rparr>
      (example_stream\<lparr>s_buf := e3 @ []\<rparr>) =
      Inr (example_locator, example_stream\<lparr>s_buf := []\<rparr>)"
    by (rule u3) (rule refl)
  with s3 have r3: "\<exists>enc. CBlockLocator_Serialize example_lib example_locator example_stream =
             (example_locator, example_stream\<lparr>s_buf := enc\<rparr>) \<and>
      CBlockLocator_Unserialize example_lib \<lparr>vHave = []\<rparr> (example_stream\<lparr>s_buf := enc\<rparr>) =
             Inr (example_locator, example_stream)"
    by (intro exI [of _ e3]) (simp add: buf)
  have v': "codec_on (ser_vtx example_lib) (vtx example_pos_block)"
    using v by simp
  show ?thesis
    by (intro conjI h r1 f p t stale hb v' q r2 ver hs r3)
qed

end
